theory Spec2Isabelle
  imports Main
begin

section \<open>The backend selector of pollset.c\<close>

text \<open>
  The file pollset.c is one conditional group of the C preprocessor: an
  \<^verbatim>\<open>#if\<close>, four \<^verbatim>\<open>#elif\<close> and an \<^verbatim>\<open>#else\<close>, each holding one
  \<^verbatim>\<open>#include\<close>. The model is a small preprocessor: controlling expressions over
  \<^verbatim>\<open>defined\<close>, integer constants, \<^verbatim>\<open>!\<close> and \<^verbatim>\<open>&&\<close>; branches tried in
  the order of the text; the directives of the first branch whose expression is
  true carried out. The build configuration is the set of macro names that are
  defined when the file is preprocessed.
\<close>

datatype pp_expr =
    Defined string
  | Const int
  | Not pp_expr
  | And pp_expr pp_expr

fun pp_eval :: "string set \<Rightarrow> pp_expr \<Rightarrow> bool" where
  "pp_eval D (Defined m) = (m \<in> D)"
| "pp_eval D (Const n) = (n \<noteq> 0)"
| "pp_eval D (Not e) = (\<not> pp_eval D e)"
| "pp_eval D (And a b) = (pp_eval D a \<and> pp_eval D b)"

text \<open>
  A branch body is a list of directives. \<^verbatim>\<open>#error\<close> stops the build with
  its message; pollset.c has none, the constructor is what lets the model say
  so.
\<close>

datatype directive =
    Include string
  | Error string

type_synonym branch = "pp_expr \<times> directive list"

fun select_branch :: "string set \<Rightarrow> branch list \<Rightarrow> directive list \<Rightarrow> directive list" where
  "select_branch D [] els = els"
| "select_branch D ((c, body) # bs) els =
     (if pp_eval D c then body else select_branch D bs els)"

text \<open>
  Carrying out the selected directives gives the list of included files, or
  the message of the first \<^verbatim>\<open>#error\<close> met (\<open>Inl\<close>: the build fails).
\<close>

fun run_directives :: "directive list \<Rightarrow> string + string list" where
  "run_directives [] = Inr []"
| "run_directives (Error m # ds) = Inl m"
| "run_directives (Include f # ds) =
     (case run_directives ds of Inl m \<Rightarrow> Inl m | Inr fs \<Rightarrow> Inr (f # fs))"

text \<open>Lines 28 to 38 of pollset.c: the \<^verbatim>\<open>#if\<close> and \<^verbatim>\<open>#elif\<close> branches.\<close>

definition pollset_branches :: "branch list" where
  "pollset_branches =
     [(Defined ''DILL_EPOLL'', [Include ''epoll.inc'']),
      (Defined ''DILL_KQUEUE'', [Include ''kqueue.inc'']),
      (Defined ''DILL_POLL'', [Include ''poll.inc'']),
      (And (And (Const 0) (Defined ''__linux__'')) (Not (Defined ''DILL_NO_EPOLL'')),
         [Include ''epoll.inc'']),
      (And (Defined ''BSD'') (Not (Defined ''DILL_NO_KQUEUE'')),
         [Include ''kqueue.inc''])]"

text \<open>Lines 39 and 40: the \<^verbatim>\<open>#else\<close> branch.\<close>

definition pollset_else :: "directive list" where
  "pollset_else = [Include ''poll.inc'']"

definition pollset_includes :: "string set \<Rightarrow> string + string list" where
  "pollset_includes D = run_directives (select_branch D pollset_branches pollset_else)"


section \<open>The pollset contract behind the included files\<close>

text \<open>
  The selector only decides which of epoll.inc, kqueue.inc and poll.inc is
  compiled; the pollset itself lives in those three files, of which pollset.c
  holds no more than the names. The Interest Table and the wait call are
  therefore defined here from the one contract that the specification gives
  for all three backends (sections 3, 4.2, 4.3 and 7).
\<close>

datatype flag = ReadReady | WriteReady

datatype error = InvalidDescriptor | BackendError int

text \<open>
  Modelled from the spec: the Interest Table of the backend files, "mapping
  from Descriptor Handle to the currently registered Interest Flags and an
  opaque caller tag" (section 3). A descriptor with no entry is unwatched.
\<close>

type_synonym 'tag interest_table = "int \<rightharpoonup> flag set \<times> 'tag"

text \<open>
  Modelled from the spec: \<^verbatim>\<open>lookup(descriptor) -> (flags, tag) or absent\<close>
  of the backend files (section 4.2).
\<close>

definition lookup :: "'tag interest_table \<Rightarrow> int \<Rightarrow> (flag set \<times> 'tag) option" where
  "lookup T d = T d"

definition registered :: "'tag interest_table \<Rightarrow> int \<Rightarrow> flag \<Rightarrow> bool" where
  "registered T d f = (case lookup T d of None \<Rightarrow> False | Some (fs, tg) \<Rightarrow> f \<in> fs)"

text \<open>
  Modelled from the spec: \<^verbatim>\<open>register(descriptor, flag, tag)\<close> of the
  backend files (section 4.2): "adds flag to the descriptor's interest set,
  associating tag; idempotent if already present. Fails with InvalidDescriptor
  if the descriptor is negative". A flag already present leaves the table as it
  is.
\<close>

definition register ::
  "'tag interest_table \<Rightarrow> int \<Rightarrow> flag \<Rightarrow> 'tag \<Rightarrow> error + 'tag interest_table" where
  "register T d f tg =
     (if d < 0 then Inl InvalidDescriptor
      else case T d of
             None \<Rightarrow> Inr (T(d \<mapsto> ({f}, tg)))
           | Some (fs, old) \<Rightarrow>
               if f \<in> fs then Inr T else Inr (T(d \<mapsto> (insert f fs, tg))))"

text \<open>
  Modelled from the spec: \<^verbatim>\<open>unregister(descriptor, flag)\<close> of the backend
  files (section 4.2): "removes flag; if the resulting interest set is empty,
  the descriptor entry is purged. No-op (not an error) if the flag was never
  set"; a malformed handle is InvalidDescriptor (section 7).
\<close>

definition unregister ::
  "'tag interest_table \<Rightarrow> int \<Rightarrow> flag \<Rightarrow> error + 'tag interest_table" where
  "unregister T d f =
     (if d < 0 then Inl InvalidDescriptor
      else case T d of
             None \<Rightarrow> Inr T
           | Some (fs, tg) \<Rightarrow>
               if f \<notin> fs then Inr T
               else if fs - {f} = {} then Inr (T(d := None))
               else Inr (T(d \<mapsto> (fs - {f}, tg))))"

text \<open>
  Modelled from the spec: the Ready Event of the backend files, "a tuple of
  (Descriptor Handle, fired flags subset of Interest Flags, caller tag)"
  (section 3).
\<close>

record 'tag ready_event =
  descriptor :: int
  fired :: "flag set"
  tag :: 'tag

text \<open>
  Modelled from the spec: the timeout of the wait call of the backend files
  (section 4.3), a number of milliseconds (zero: "poll once, non-blocking") or
  infinite.
\<close>

datatype timeout = Millis nat | Forever

text \<open>The budget left after \<open>e\<close> milliseconds, and whether \<open>dl\<close> milliseconds exceed it.\<close>

fun remaining :: "timeout \<Rightarrow> nat \<Rightarrow> timeout" where
  "remaining (Millis ms) e = Millis (ms - e)"
| "remaining Forever e = Forever"

fun expires :: "timeout \<Rightarrow> nat \<Rightarrow> bool" where
  "expires (Millis ms) dl = (ms < dl)"
| "expires Forever dl = False"

text \<open>
  Modelled from the spec: what the native mechanism can answer to a blocking
  call of a backend file (sections 4.3 and 7): descriptors with their raw
  readiness, an interruption by a signal, or a failure with the error code of
  the operating system. The environment of a wait call is the list of what
  will happen next, each with the milliseconds that pass before it, counted
  from the start of the native call that meets it.
\<close>

datatype happening =
    Fires "(int \<times> flag set) list"
  | Signal
  | Fails int

type_synonym timeline = "(nat \<times> happening) list"

text \<open>
  Modelled from the spec: the backend files' translation of "backend-native
  result sets back into a uniform event list" (section 2), each entry with
  "fired flags \<subseteq> registered flags" and the tag of the table (section 3); a
  descriptor that is not registered gives no event (section 5).
\<close>

fun translate :: "'tag interest_table \<Rightarrow> (int \<times> flag set) list \<Rightarrow> 'tag ready_event list" where
  "translate T [] = []"
| "translate T ((d, raw) # rs) =
     (case lookup T d of
        None \<Rightarrow> translate T rs
      | Some (fs, tg) \<Rightarrow>
          if raw \<inter> fs = {} then translate T rs
          else \<lparr>descriptor = d, fired = raw \<inter> fs, tag = tg\<rparr> # translate T rs)"

text \<open>
  Modelled from the spec: \<^verbatim>\<open>wait(timeout)\<close> of the backend files (sections
  4.3 and 7). It "blocks the calling thread until at least one registered
  interest fires, the timeout elapses, or the wait is interrupted by a
  recoverable signal (in which case it transparently retries with the remaining
  timeout)"; it "returns an empty sequence on timeout"; every other failure of
  the native call is "surfaced immediately" as BackendError. The result comes
  with the part of the timeline not yet met; \<open>None\<close> is a wait that never
  returns (an infinite timeout and nothing left to happen).
\<close>

fun wait ::
  "'tag interest_table \<Rightarrow> timeout \<Rightarrow> timeline \<Rightarrow>
     ((error + 'tag ready_event list) \<times> timeline) option" where
  "wait T t [] = (case t of Millis ms \<Rightarrow> Some (Inr [], []) | Forever \<Rightarrow> None)"
| "wait T t ((dl, h) # os) =
     (if expires t dl
      then Some (Inr [], ((case t of Millis ms \<Rightarrow> dl - ms | Forever \<Rightarrow> dl), h) # os)
      else case h of
             Fires rs \<Rightarrow> Some (Inr (translate T rs), os)
           | Signal \<Rightarrow> wait T (remaining t dl) os
           | Fails c \<Rightarrow> Some (Inl (BackendError c), os))"

text \<open>A run of signal interruptions, \<open>ds\<close> giving the time before each.\<close>

definition signals :: "nat list \<Rightarrow> timeline" where
  "signals ds = map (\<lambda>d. (d, Signal)) ds"

text \<open>
  Within the first \<open>ms\<close> milliseconds of the timeline nothing happens but
  signal interruptions: no interest fires and no native call fails.
\<close>

fun quiet_for :: "nat \<Rightarrow> timeline \<Rightarrow> bool" where
  "quiet_for ms [] = True"
| "quiet_for ms ((dl, h) # os) = (ms < dl \<or> (h = Signal \<and> quiet_for (ms - dl) os))"


section \<open>Properties of the backend selector\<close>

lemma pollset_includes_cases:
  "pollset_includes D =
     (if ''DILL_EPOLL'' \<in> D then Inr [''epoll.inc'']
      else if ''DILL_KQUEUE'' \<in> D then Inr [''kqueue.inc'']
      else if ''DILL_POLL'' \<in> D then Inr [''poll.inc'']
      else if ''BSD'' \<in> D \<and> ''DILL_NO_KQUEUE'' \<notin> D then Inr [''kqueue.inc'']
      else Inr [''poll.inc''])"
  by (simp add: pollset_includes_def pollset_branches_def pollset_else_def)

text \<open>
  C1. Whatever macros are defined, the selector includes exactly one file, and
  it is one of epoll.inc, kqueue.inc and poll.inc: never none, never two.
\<close>

theorem exactly_one_backend:
  "pollset_includes D = Inr [''epoll.inc'']
   \<or> pollset_includes D = Inr [''kqueue.inc'']
   \<or> pollset_includes D = Inr [''poll.inc'']"
  by (simp add: pollset_includes_cases)

text \<open>
  C2. An override flag wins over platform detection: DILL_EPOLL selects
  epoll.inc; failing that DILL_KQUEUE selects kqueue.inc; failing that DILL_POLL
  selects poll.inc. Nothing is assumed about __linux__, BSD, DILL_NO_EPOLL and
  DILL_NO_KQUEUE, so each holds whatever they are.
\<close>

theorem override_wins:
  "(''DILL_EPOLL'' \<in> D \<longrightarrow> pollset_includes D = Inr [''epoll.inc''])
   \<and> (''DILL_EPOLL'' \<notin> D \<and> ''DILL_KQUEUE'' \<in> D \<longrightarrow>
        pollset_includes D = Inr [''kqueue.inc''])
   \<and> (''DILL_EPOLL'' \<notin> D \<and> ''DILL_KQUEUE'' \<notin> D \<and> ''DILL_POLL'' \<in> D \<longrightarrow>
        pollset_includes D = Inr [''poll.inc''])"
  by (simp add: pollset_includes_cases)

theorem override_wins_witness:
  "''DILL_EPOLL'' \<in> {''DILL_EPOLL'', ''BSD''}
   \<and> pollset_includes {''DILL_EPOLL'', ''BSD''} = Inr [''epoll.inc'']
   \<and> ''DILL_EPOLL'' \<notin> {''DILL_KQUEUE'', ''__linux__'', ''DILL_NO_KQUEUE''}
   \<and> ''DILL_KQUEUE'' \<in> {''DILL_KQUEUE'', ''__linux__'', ''DILL_NO_KQUEUE''}
   \<and> pollset_includes {''DILL_KQUEUE'', ''__linux__'', ''DILL_NO_KQUEUE''} = Inr [''kqueue.inc'']
   \<and> ''DILL_EPOLL'' \<notin> {''DILL_POLL'', ''BSD''}
   \<and> ''DILL_KQUEUE'' \<notin> {''DILL_POLL'', ''BSD''}
   \<and> ''DILL_POLL'' \<in> {''DILL_POLL'', ''BSD''}
   \<and> pollset_includes {''DILL_POLL'', ''BSD''} = Inr [''poll.inc'']"
  using override_wins [of "{''DILL_EPOLL'', ''BSD''}"]
    override_wins [of "{''DILL_KQUEUE'', ''__linux__'', ''DILL_NO_KQUEUE''}"]
    override_wins [of "{''DILL_POLL'', ''BSD''}"]
  by simp

text \<open>
  C3, as the spec states it, fails: with no override flag and only __linux__
  defined, the file included is poll.inc and not epoll.inc, since the branch for
  Linux starts with the constant 0; with BSD and DILL_NO_KQUEUE defined it is
  poll.inc and not kqueue.inc.
\<close>

theorem platform_default_counterexample:
  "''DILL_EPOLL'' \<notin> {''__linux__''} \<and> ''DILL_KQUEUE'' \<notin> {''__linux__''}
   \<and> ''DILL_POLL'' \<notin> {''__linux__''} \<and> ''__linux__'' \<in> {''__linux__''}
   \<and> pollset_includes {''__linux__''} = Inr [''poll.inc'']
   \<and> pollset_includes {''__linux__''} \<noteq> Inr [''epoll.inc'']
   \<and> ''BSD'' \<in> {''BSD'', ''DILL_NO_KQUEUE''}
   \<and> pollset_includes {''BSD'', ''DILL_NO_KQUEUE''} = Inr [''poll.inc'']
   \<and> pollset_includes {''BSD'', ''DILL_NO_KQUEUE''} \<noteq> Inr [''kqueue.inc'']"
  by (simp add: pollset_includes_cases)

text \<open>
  C3, amended. With no override flag defined, kqueue.inc is included on a BSD
  platform where DILL_NO_KQUEUE is not defined; in every other case, Linux
  among them, the portable poll.inc is included.
\<close>

theorem platform_default:
  assumes "''DILL_EPOLL'' \<notin> D" and "''DILL_KQUEUE'' \<notin> D" and "''DILL_POLL'' \<notin> D"
  shows "(''BSD'' \<in> D \<and> ''DILL_NO_KQUEUE'' \<notin> D \<longrightarrow>
            pollset_includes D = Inr [''kqueue.inc''])
         \<and> (\<not> (''BSD'' \<in> D \<and> ''DILL_NO_KQUEUE'' \<notin> D) \<longrightarrow>
            pollset_includes D = Inr [''poll.inc''])"
  using assms by (simp add: pollset_includes_cases)

theorem platform_default_witness:
  "pollset_includes {''BSD''} = Inr [''kqueue.inc'']
   \<and> pollset_includes {''__linux__''} = Inr [''poll.inc'']
   \<and> pollset_includes {} = Inr [''poll.inc'']"
proof -
  have bsd: "''DILL_EPOLL'' \<notin> {''BSD''}" "''DILL_KQUEUE'' \<notin> {''BSD''}"
    "''DILL_POLL'' \<notin> {''BSD''}"
    by simp_all
  have linux: "''DILL_EPOLL'' \<notin> {''__linux__''}" "''DILL_KQUEUE'' \<notin> {''__linux__''}"
    "''DILL_POLL'' \<notin> {''__linux__''}"
    by simp_all
  have none: "''DILL_EPOLL'' \<notin> ({} :: string set)" "''DILL_KQUEUE'' \<notin> ({} :: string set)"
    "''DILL_POLL'' \<notin> ({} :: string set)"
    by simp_all
  show ?thesis
    using platform_default [OF bsd] platform_default [OF linux] platform_default [OF none]
    by simp
qed

text \<open>
  C4, as the spec states it, fails: with DILL_EPOLL and DILL_KQUEUE both
  defined, and with all three override flags defined, preprocessing succeeds
  and includes epoll.inc; no \<^verbatim>\<open>#error\<close> is reached.
\<close>

theorem multiple_overrides_counterexample:
  "pollset_includes {''DILL_EPOLL'', ''DILL_KQUEUE''} = Inr [''epoll.inc'']
   \<and> pollset_includes {''DILL_EPOLL'', ''DILL_KQUEUE'', ''DILL_POLL''} = Inr [''epoll.inc'']
   \<and> pollset_includes {''DILL_KQUEUE'', ''DILL_POLL''} = Inr [''kqueue.inc'']"
  by (simp add: pollset_includes_cases)

text \<open>
  C4, amended. Two or more override flags defined together are not an error
  of the selector: preprocessing succeeds and the first of them in the order
  DILL_EPOLL, DILL_KQUEUE, DILL_POLL decides the one file included.
\<close>

theorem multiple_overrides_first_wins:
  "(''DILL_EPOLL'' \<in> D \<and> (''DILL_KQUEUE'' \<in> D \<or> ''DILL_POLL'' \<in> D) \<longrightarrow>
      pollset_includes D = Inr [''epoll.inc''])
   \<and> (''DILL_EPOLL'' \<notin> D \<and> ''DILL_KQUEUE'' \<in> D \<and> ''DILL_POLL'' \<in> D \<longrightarrow>
      pollset_includes D = Inr [''kqueue.inc''])"
  by (simp add: pollset_includes_cases)

theorem multiple_overrides_first_wins_witness:
  "''DILL_EPOLL'' \<in> {''DILL_EPOLL'', ''DILL_POLL''}
   \<and> ''DILL_POLL'' \<in> {''DILL_EPOLL'', ''DILL_POLL''}
   \<and> pollset_includes {''DILL_EPOLL'', ''DILL_POLL''} = Inr [''epoll.inc'']
   \<and> ''DILL_EPOLL'' \<notin> {''DILL_KQUEUE'', ''DILL_POLL''}
   \<and> ''DILL_KQUEUE'' \<in> {''DILL_KQUEUE'', ''DILL_POLL''}
   \<and> ''DILL_POLL'' \<in> {''DILL_KQUEUE'', ''DILL_POLL''}
   \<and> pollset_includes {''DILL_KQUEUE'', ''DILL_POLL''} = Inr [''kqueue.inc'']"
  using multiple_overrides_first_wins [of "{''DILL_EPOLL'', ''DILL_POLL''}"]
    multiple_overrides_first_wins [of "{''DILL_KQUEUE'', ''DILL_POLL''}"]
  by simp

text \<open>
  C5. With no override flag defined and BSD defined, DILL_NO_KQUEUE decides
  between the two: defined, poll.inc is included; not defined, kqueue.inc.
\<close>

theorem no_kqueue_switch:
  assumes "''DILL_EPOLL'' \<notin> D" and "''DILL_KQUEUE'' \<notin> D" and "''DILL_POLL'' \<notin> D"
    and "''BSD'' \<in> D"
  shows "(''DILL_NO_KQUEUE'' \<in> D \<longrightarrow> pollset_includes D = Inr [''poll.inc''])
         \<and> (''DILL_NO_KQUEUE'' \<notin> D \<longrightarrow> pollset_includes D = Inr [''kqueue.inc''])"
  using assms by (simp add: pollset_includes_cases)

theorem no_kqueue_switch_witness:
  "pollset_includes {''BSD'', ''DILL_NO_KQUEUE''} = Inr [''poll.inc'']
   \<and> pollset_includes {''BSD'', ''__linux__''} = Inr [''kqueue.inc'']"
proof -
  have off: "''DILL_EPOLL'' \<notin> {''BSD'', ''DILL_NO_KQUEUE''}"
    "''DILL_KQUEUE'' \<notin> {''BSD'', ''DILL_NO_KQUEUE''}"
    "''DILL_POLL'' \<notin> {''BSD'', ''DILL_NO_KQUEUE''}"
    "''BSD'' \<in> {''BSD'', ''DILL_NO_KQUEUE''}"
    by simp_all
  have on: "''DILL_EPOLL'' \<notin> {''BSD'', ''__linux__''}"
    "''DILL_KQUEUE'' \<notin> {''BSD'', ''__linux__''}"
    "''DILL_POLL'' \<notin> {''BSD'', ''__linux__''}"
    "''BSD'' \<in> {''BSD'', ''__linux__''}"
    by simp_all
  show ?thesis
    using no_kqueue_switch [OF off] no_kqueue_switch [OF on] by simp
qed

text \<open>
  C6. DILL_NO_EPOLL has no influence: for any setting of the other macros, the
  result with DILL_NO_EPOLL defined is the result with it not defined. The one
  controlling expression that mentions it is false in every configuration,
  its first conjunct being the constant 0.
\<close>

theorem no_epoll_irrelevant:
  "pollset_includes (insert ''DILL_NO_EPOLL'' D) = pollset_includes (D - {''DILL_NO_EPOLL''})
   \<and> pp_eval D (And (And (Const 0) (Defined ''__linux__'')) (Not (Defined ''DILL_NO_EPOLL'')))
       = False"
  by (simp add: pollset_includes_cases)


section \<open>Properties of the pollset contract\<close>

text \<open>Every event that the translation emits is backed by an entry of the table.\<close>

lemma translate_sound:
  "ev \<in> set (translate T rs) \<Longrightarrow>
     fired ev \<noteq> {} \<and> (\<exists>fs. lookup T (descriptor ev) = Some (fs, tag ev) \<and> fired ev \<subseteq> fs)"
proof (induction rs)
  case Nil
  then show ?case by simp
next
  case (Cons r rs)
  obtain d raw where r: "r = (d, raw)" by (cases r)
  show ?case
  proof (cases "lookup T d")
    case None
    with Cons r show ?thesis by simp
  next
    case (Some e)
    obtain fs tg where e: "e = (fs, tg)" by (cases e)
    show ?thesis
    proof (cases "raw \<inter> fs = {}")
      case True
      with Cons r Some e show ?thesis by simp
    next
      case False
      with Cons r Some e show ?thesis by auto
    qed
  qed
qed

text \<open>What a wait call returns or surfaces comes from the timeline it met.\<close>

lemma wait_events:
  "wait T t os = Some (Inr evs, os') \<Longrightarrow> ev \<in> set evs \<Longrightarrow>
     \<exists>rs. ev \<in> set (translate T rs)"
  by (induction T t os rule: wait.induct)
     (auto split: timeout.splits if_splits happening.splits)

lemma wait_signals:
  "\<not> expires t (sum_list ds) \<Longrightarrow>
     wait T t (signals ds @ os) = wait T (remaining t (sum_list ds)) os"
proof (induction ds arbitrary: t)
  case Nil
  then show ?case by (cases t) (simp_all add: signals_def)
next
  case (Cons d ds)
  then show ?case
    by (cases t) (auto simp: signals_def)
qed

lemma wait_error_origin:
  "wait T t os = Some (Inl e, os') \<Longrightarrow> \<exists>dl c. (dl, Fails c) \<in> set os \<and> e = BackendError c"
  by (induction T t os rule: wait.induct)
     (auto split: timeout.splits if_splits happening.splits)

text \<open>
  C7. Every Ready Event that a wait call returns has a non-empty set of fired
  flags, and these are among the flags that the Interest Table of the call
  holds for the event's descriptor, under the event's tag: nothing is reported
  that was not registered.
\<close>

theorem fired_subset_registered:
  assumes "wait T t os = Some (Inr evs, os')" and "ev \<in> set evs"
  shows "fired ev \<noteq> {}
         \<and> (\<exists>fs. lookup T (descriptor ev) = Some (fs, tag ev) \<and> fired ev \<subseteq> fs)"
proof -
  from assms obtain rs where "ev \<in> set (translate T rs)"
    using wait_events by blast
  then show ?thesis by (rule translate_sound)
qed

theorem fired_subset_registered_witness:
  "wait (Map.empty(3 \<mapsto> ({ReadReady}, ''coro-1''))) Forever
     [(5, Signal), (2, Fires [(3, {ReadReady, WriteReady}), (4, {ReadReady})])]
     = Some (Inr [\<lparr>descriptor = 3, fired = {ReadReady}, tag = ''coro-1''\<rparr>], [])
   \<and> {ReadReady} \<noteq> ({} :: flag set)
   \<and> (\<exists>fs. lookup (Map.empty(3 \<mapsto> ({ReadReady}, ''coro-1''))) 3 = Some (fs, ''coro-1'')
             \<and> {ReadReady} \<subseteq> fs)"
proof -
  have run: "wait (Map.empty(3 \<mapsto> ({ReadReady}, ''coro-1''))) Forever
     [(5, Signal), (2, Fires [(3, {ReadReady, WriteReady}), (4, {ReadReady})])]
     = Some (Inr [\<lparr>descriptor = 3, fired = {ReadReady}, tag = ''coro-1''\<rparr>], [])"
    by (simp add: lookup_def)
  have mem: "\<lparr>descriptor = 3, fired = {ReadReady}, tag = ''coro-1''\<rparr>
      \<in> set [\<lparr>descriptor = 3, fired = {ReadReady}, tag = ''coro-1''\<rparr>]"
    by simp
  show ?thesis
    using run fired_subset_registered [OF run mem] by simp
qed

text \<open>
  C8. Once a (descriptor, flag) pair has been registered, registering it again
  under the same tag leaves the Interest Table as it is, and one unregister of
  the flag then removes it; where the descriptor was unwatched before, the
  entry is purged and the table is the original one again.
\<close>

theorem register_idempotent:
  assumes "register T d f tg = Inr T1"
  shows "register T1 d f tg = Inr T1
         \<and> (\<exists>T2. unregister T1 d f = Inr T2 \<and> \<not> registered T2 d f
                \<and> (lookup T d = None \<longrightarrow> T2 = T))"
  using assms
  by (auto simp: register_def unregister_def registered_def lookup_def
           split: if_splits option.splits)

theorem register_idempotent_witness:
  "register Map.empty 3 ReadReady ''coro-1'' = Inr (Map.empty(3 \<mapsto> ({ReadReady}, ''coro-1'')))
   \<and> register (Map.empty(3 \<mapsto> ({ReadReady}, ''coro-1''))) 3 ReadReady ''coro-1''
       = Inr (Map.empty(3 \<mapsto> ({ReadReady}, ''coro-1'')))
   \<and> unregister (Map.empty(3 \<mapsto> ({ReadReady}, ''coro-1''))) 3 ReadReady = Inr Map.empty"
proof -
  have once: "register (Map.empty :: string interest_table) 3 ReadReady ''coro-1''
      = Inr (Map.empty(3 \<mapsto> ({ReadReady}, ''coro-1'')))"
    by (simp add: register_def)
  show ?thesis
    using once register_idempotent [OF once] by (auto simp: lookup_def)
qed

text \<open>
  C9. For every finite timeout, zero included: when the timeout elapses
  before any interest fires (until then the timeline holds nothing but signal
  interruptions), the wait call returns, and what it returns is the empty
  sequence as a success, not an error.
\<close>

theorem timeout_returns_empty:
  "quiet_for ms os \<Longrightarrow> \<exists>os'. wait T (Millis ms) os = Some (Inr [], os')"
  by (induction os arbitrary: ms) (auto split: happening.splits)

theorem timeout_returns_empty_witness:
  "quiet_for 100 [(30, Signal), (80, Fires [(3, {ReadReady})])]
   \<and> wait (Map.empty(3 \<mapsto> ({ReadReady}, ''coro-1''))) (Millis 100)
        [(30, Signal), (80, Fires [(3, {ReadReady})])]
       = Some (Inr [], [(10, Fires [(3, {ReadReady})])])
   \<and> quiet_for 0 [(1, Fires [(3, {ReadReady})])]
   \<and> wait (Map.empty(3 \<mapsto> ({ReadReady}, ''coro-1''))) (Millis 0) [(1, Fires [(3, {ReadReady})])]
       = Some (Inr [], [(1, Fires [(3, {ReadReady})])])"
proof -
  have q1: "quiet_for 100 [(30, Signal), (80, Fires [(3, {ReadReady})])]" by simp
  have q2: "quiet_for 0 [(1, Fires [(3, {ReadReady})])]" by simp
  show ?thesis
    using q1 q2
      timeout_returns_empty [OF q1, of "Map.empty(3 \<mapsto> ({ReadReady}, ''coro-1''))"]
      timeout_returns_empty [OF q2, of "Map.empty(3 \<mapsto> ({ReadReady}, ''coro-1''))"]
    by simp
qed

text \<open>
  C10. A signal interruption never reaches the caller and only it is retried,
  with the budget recomputed. Every error that a wait call surfaces is the
  BackendError of a failure of the native call. After a run of signal
  interruptions that took \<open>sum_list ds\<close> milliseconds of a budget of \<open>ms\<close>, the
  wait goes on with exactly \<open>ms - sum_list ds\<close> milliseconds (an infinite budget
  stays infinite): whatever comes later than that is not met, the call
  returning the empty sequence with it still pending. A failure of the native
  call that comes within the budget left is returned at once as BackendError,
  with the rest of the timeline untouched: no further native call is made.
\<close>

theorem signal_retried_failure_surfaced:
  "(wait T t hs = Some (Inl e, hs') \<longrightarrow>
      (\<exists>dl c. (dl, Fails c) \<in> set hs \<and> e = BackendError c))
   \<and> (sum_list ds \<le> ms \<longrightarrow>
        wait T (Millis ms) (signals ds @ os) = wait T (Millis (ms - sum_list ds)) os)
   \<and> wait T Forever (signals ds @ os) = wait T Forever os
   \<and> (sum_list ds \<le> ms \<and> ms - sum_list ds < dl \<longrightarrow>
        wait T (Millis ms) (signals ds @ (dl, h) # os)
          = Some (Inr [], (dl - (ms - sum_list ds), h) # os))
   \<and> (sum_list ds + dl \<le> ms \<longrightarrow>
        wait T (Millis ms) (signals ds @ (dl, Fails c) # os) = Some (Inl (BackendError c), os))
   \<and> wait T Forever (signals ds @ (dl, Fails c) # os) = Some (Inl (BackendError c), os)"
proof (intro conjI impI)
  assume "wait T t hs = Some (Inl e, hs')"
  then show "\<exists>dl c. (dl, Fails c) \<in> set hs \<and> e = BackendError c"
    by (rule wait_error_origin)
next
  assume "sum_list ds \<le> ms"
  then show "wait T (Millis ms) (signals ds @ os) = wait T (Millis (ms - sum_list ds)) os"
    using wait_signals [of "Millis ms" ds T os] by simp
next
  show "wait T Forever (signals ds @ os) = wait T Forever os"
    using wait_signals [of Forever ds T os] by simp
next
  assume "sum_list ds \<le> ms \<and> ms - sum_list ds < dl"
  then show "wait T (Millis ms) (signals ds @ (dl, h) # os)
      = Some (Inr [], (dl - (ms - sum_list ds), h) # os)"
    using wait_signals [of "Millis ms" ds T "(dl, h) # os"] by simp
next
  assume "sum_list ds + dl \<le> ms"
  then show "wait T (Millis ms) (signals ds @ (dl, Fails c) # os)
      = Some (Inl (BackendError c), os)"
    using wait_signals [of "Millis ms" ds T "(dl, Fails c) # os"] by simp
next
  show "wait T Forever (signals ds @ (dl, Fails c) # os) = Some (Inl (BackendError c), os)"
    using wait_signals [of Forever ds T "(dl, Fails c) # os"] by simp
qed

theorem signal_retried_failure_surfaced_witness:
  "wait (Map.empty(3 \<mapsto> ({ReadReady}, ''coro-1''))) (Millis 100)
        (signals [10, 20] @ (80, Fires [(3, {ReadReady})]) # [])
       = Some (Inr [], [(10, Fires [(3, {ReadReady})])])
   \<and> wait (Map.empty(3 \<mapsto> ({ReadReady}, ''coro-1''))) (Millis 100)
        (signals [10, 20] @ [(70, Fires [(3, {ReadReady})])])
       = Some (Inr [\<lparr>descriptor = 3, fired = {ReadReady}, tag = ''coro-1''\<rparr>], [])
   \<and> wait (Map.empty(3 \<mapsto> ({ReadReady}, ''coro-1''))) (Millis 100)
        (signals [10, 20] @ (80, Fails 9) # [(5, Fires [(3, {ReadReady})])])
       = Some (Inr [], [(10, Fails 9), (5, Fires [(3, {ReadReady})])])
   \<and> wait (Map.empty(3 \<mapsto> ({ReadReady}, ''coro-1''))) (Millis 100)
        (signals [10, 20] @ (30, Fails 9) # [(5, Fires [(3, {ReadReady})])])
       = Some (Inl (BackendError 9), [(5, Fires [(3, {ReadReady})])])
   \<and> (\<exists>dl c. (dl, Fails c)
          \<in> set (signals [10, 20] @ (30, Fails 9) # [(5, Fires [(3, {ReadReady})])])
         \<and> BackendError 9 = BackendError c)"
proof -
  let ?T = "Map.empty(3 \<mapsto> ({ReadReady}, ''coro-1''))"
  let ?fire = "Fires [(3, {ReadReady})]"
  let ?rest = "[(5, ?fire)]"
  have late: "sum_list [10, 20] \<le> (100::nat) \<and> 100 - sum_list [10, 20] < (80::nat)"
    and within: "sum_list [10, 20] \<le> (100::nat)"
    and still: "sum_list [10, 20] + 30 \<le> (100::nat)"
    by simp_all
  have expired: "wait ?T (Millis 100) (signals [10, 20] @ (80, ?fire) # [])
      = Some (Inr [], [(10, ?fire)])"
    using late
      signal_retried_failure_surfaced
        [of ?T "Millis 100" "[]" "BackendError 0" "[]" "[10, 20]" 100 "[]" 80 ?fire 0]
    by simp
  have reduced: "wait ?T (Millis 100) (signals [10, 20] @ [(70, ?fire)])
      = wait ?T (Millis (100 - sum_list [10, 20])) [(70, ?fire)]"
    using within
      signal_retried_failure_surfaced
        [of ?T "Millis 100" "[]" "BackendError 0" "[]" "[10, 20]" 100 "[(70, ?fire)]" 0 Signal 0]
    by blast
  have delivered: "wait ?T (Millis 100) (signals [10, 20] @ [(70, ?fire)])
      = Some (Inr [\<lparr>descriptor = 3, fired = {ReadReady}, tag = ''coro-1''\<rparr>], [])"
    by (simp add: reduced lookup_def)
  have late_failure: "wait ?T (Millis 100) (signals [10, 20] @ (80, Fails 9) # ?rest)
      = Some (Inr [], [(10, Fails 9), (5, ?fire)])"
    using late
      signal_retried_failure_surfaced
        [of ?T "Millis 100" "[]" "BackendError 0" "[]" "[10, 20]" 100 ?rest 80 "Fails 9" 0]
    by simp
  have fails: "wait ?T (Millis 100) (signals [10, 20] @ (30, Fails 9) # ?rest)
      = Some (Inl (BackendError 9), ?rest)"
    using still
      signal_retried_failure_surfaced
        [of ?T "Millis 100" "[]" "BackendError 0" "[]" "[10, 20]" 100 ?rest 30 "Fails 9" 9]
    by blast
  have origin: "\<exists>dl c. (dl, Fails c) \<in> set (signals [10, 20] @ (30, Fails 9) # ?rest)
      \<and> BackendError 9 = BackendError c"
    using fails
      signal_retried_failure_surfaced
        [of ?T "Millis 100" "signals [10, 20] @ (30, Fails 9) # ?rest" "BackendError 9" ?rest
            "[]" 0 "[]" 0 Signal 0]
    by blast
  from expired delivered late_failure fails origin show ?thesis by simp
qed

end
